theory Spec2Isabelle
  imports Main
begin

section \<open>Python values and the two operators the notebook uses\<close>

text \<open>
  The toy functions of \<^verbatim>\<open>Intro_xarray_dask.ipynb\<close> are
  \<^verbatim>\<open>
  def add(x,y):
      sleep(2) # pause for 2 seconds
      return x+y

  def mlt(x,y):
      sleep(1) # pause for 1 second
      return x*y
  \<close>
  They are untyped, so the arguments range over Python values. The values modelled are
  \<open>None\<close>, the unbounded integers, strings and lists; floating-point numbers are left
  out. \<open>x+y\<close> and \<open>x*y\<close> are Python's operators: addition and multiplication on
  integers, concatenation and repetition on strings and lists, and a \<open>TypeError\<close>
  naming the operator and the operand types otherwise.

  Repetition is the one of a 64-bit CPython, with the checks the operator makes on its
  operands: the count must fit the index type \<open>Py_ssize_t\<close> (\<open>OverflowError\<close>
  otherwise, also for an empty sequence), and so must the length of the result
  (\<open>OverflowError\<close> for a string, \<open>MemoryError\<close> for a list). The allocator is not
  modelled: a result that passes these checks is returned, as if the machine had room
  for it, just as integers of any size are. Running out of memory can end any Python
  operation and depends on the machine and the moment, not on the operands: so
  \<open>'a' * 2**62\<close>, which passes the operator's checks and then fails in the allocator
  of a present-day machine, is a string here. No result below states a success of that
  kind.
\<close>

datatype pyval = VNone | VInt int | VStr string | VList "pyval list"

datatype pytype = TNone | TInt | TStr | TList

datatype binop = OpAdd | OpMul

datatype pyerror =
    TypeError binop pytype pytype
  | NameError string
  | AttributeError pytype string
  | LibraryError string
  | OverflowError
  | MemoryError

fun type_of :: "pyval \<Rightarrow> pytype" where
  "type_of VNone = TNone"
| "type_of (VInt i) = TInt"
| "type_of (VStr s) = TStr"
| "type_of (VList xs) = TList"

fun py_add :: "pyval \<Rightarrow> pyval \<Rightarrow> pyerror + pyval" where
  "py_add (VInt a) (VInt b) = Inr (VInt (a + b))"
| "py_add (VStr s) (VStr t) = Inr (VStr (s @ t))"
| "py_add (VList xs) (VList ys) = Inr (VList (xs @ ys))"
| "py_add x y = Inl (TypeError OpAdd (type_of x) (type_of y))"

definition ssize_max :: int where
  \<comment> \<open>\<open>PY_SSIZE_T_MAX\<close> (\<open>sys.maxsize\<close>) of a 64-bit build; the least value is \<open>- ssize_max - 1\<close>.\<close>
  "ssize_max = 2 ^ 63 - 1"

definition as_ssize :: "int \<Rightarrow> pyerror + int" where
  \<comment> \<open>The count of a repetition is converted to \<open>Py_ssize_t\<close> before anything else.\<close>
  "as_ssize n = (if n < - ssize_max - 1 \<or> ssize_max < n then Inl OverflowError else Inr n)"

definition str_repeat :: "string \<Rightarrow> int \<Rightarrow> pyerror + pyval" where
  \<comment> \<open>\<open>s * n\<close> and \<open>n * s\<close>: empty for a count below 1, "repeated string is too long"
     when the length times the count exceeds \<open>ssize_max\<close>.\<close>
  "str_repeat s n =
     (case as_ssize n of
        Inl e \<Rightarrow> Inl e
      | Inr count \<Rightarrow>
          if count < 1 then Inr (VStr [])
          else if ssize_max div count < int (length s) then Inl OverflowError
          else Inr (VStr (concat (replicate (nat count) s))))"

definition list_repeat :: "pyval list \<Rightarrow> int \<Rightarrow> pyerror + pyval" where
  \<comment> \<open>\<open>xs * n\<close> and \<open>n * xs\<close>: a negative count counts as 0; \<open>MemoryError\<close> when the
     length times the count exceeds \<open>ssize_max\<close>.\<close>
  "list_repeat xs n =
     (case as_ssize n of
        Inl e \<Rightarrow> Inl e
      | Inr count \<Rightarrow>
          (let k = (if count < 0 then 0 else count) in
           if 0 < k \<and> ssize_max div k < int (length xs) then Inl MemoryError
           else Inr (VList (concat (replicate (nat k) xs)))))"

fun py_mul :: "pyval \<Rightarrow> pyval \<Rightarrow> pyerror + pyval" where
  "py_mul (VInt a) (VInt b) = Inr (VInt (a * b))"
| "py_mul (VInt n) (VStr s) = str_repeat s n"
| "py_mul (VStr s) (VInt n) = str_repeat s n"
| "py_mul (VInt n) (VList xs) = list_repeat xs n"
| "py_mul (VList xs) (VInt n) = list_repeat xs n"
| "py_mul x y = Inl (TypeError OpMul (type_of x) (type_of y))"

section \<open>The state of the running notebook\<close>

text \<open>
  The notebook defines two functions; \<open>fname\<close> names them. An object bound to a
  name of the notebook is a plain value or a delayed object, the description of a call
  that the dask library builds (see the section on delayed objects).

  The state holds the global namespace the cells share, the number of seconds spent
  in \<open>sleep\<close> so far, and the list of toy functions whose body has been entered, in the
  order of entry. The last field is an observer added by the model: the source has
  no such list, and nothing in the model reads it.
\<close>

datatype fname = Add | Mlt

datatype obj = Plain pyval | Delayed fname obj obj

record world =
  globals :: "string \<rightharpoonup> obj"
  slept :: nat
  invoked :: "fname list"

definition sleep :: "nat \<Rightarrow> world \<Rightarrow> world" where
  "sleep n w = w\<lparr>slept := slept w + n\<rparr>"

definition enter :: "fname \<Rightarrow> world \<Rightarrow> world" where
  "enter f w = w\<lparr>invoked := invoked w @ [f]\<rparr>"

definition assign :: "string \<Rightarrow> obj \<Rightarrow> world \<Rightarrow> world" where
  "assign x v w = w\<lparr>globals := (globals w)(x \<mapsto> v)\<rparr>"

section \<open>The toy functions\<close>

definition add :: "world \<Rightarrow> pyval \<Rightarrow> pyval \<Rightarrow> world \<times> (pyerror + pyval)" where
  "add w x y = (let w1 = sleep 2 (enter Add w) in (w1, py_add x y))"

definition mlt :: "world \<Rightarrow> pyval \<Rightarrow> pyval \<Rightarrow> world \<times> (pyerror + pyval)" where
  "mlt w x y = (let w1 = sleep 1 (enter Mlt w) in (w1, py_mul x y))"

fun call :: "fname \<Rightarrow> world \<Rightarrow> pyval \<Rightarrow> pyval \<Rightarrow> world \<times> (pyerror + pyval)" where
  "call Add w x y = add w x y"
| "call Mlt w x y = mlt w x y"

fun operator :: "fname \<Rightarrow> pyval \<Rightarrow> pyval \<Rightarrow> pyerror + pyval" where
  \<comment> \<open>The operator in the \<open>return\<close> statement of each function.\<close>
  "operator Add x y = py_add x y"
| "operator Mlt x y = py_mul x y"

section \<open>The eager cell\<close>

text \<open>
  \<^verbatim>\<open>
  a = add(1,2)
  b = mlt(1,2)
  c = mlt(a,b)
  \<close>
  A statement that raises ends the cell; what the earlier statements bound stays bound.
  The third statement reads \<open>a\<close> and \<open>b\<close>, which the two statements before it have
  just bound, so it is given the values bound there.
\<close>

definition eager_cell :: "world \<Rightarrow> world \<times> pyerror option" where
  "eager_cell w =
     (case add w (VInt 1) (VInt 2) of
        (w1, Inl e) \<Rightarrow> (w1, Some e)
      | (w1, Inr a) \<Rightarrow>
          (let w2 = assign ''a'' (Plain a) w1 in
           case mlt w2 (VInt 1) (VInt 2) of
             (w3, Inl e) \<Rightarrow> (w3, Some e)
           | (w3, Inr b) \<Rightarrow>
               (let w4 = assign ''b'' (Plain b) w3 in
                case mlt w4 a b of
                  (w5, Inl e) \<Rightarrow> (w5, Some e)
                | (w5, Inr c) \<Rightarrow> (assign ''c'' (Plain c) w5, None))))"

section \<open>Delayed objects\<close>

text \<open>
  Modelled from the spec: \<open>delayed\<close> belongs to the dask library, whose code is not in
  the repository. The spec's glossary has "constructing a description of a computation
  without running it, to be executed later, possibly in parallel with other independent
  computations", and the notebook says of \<open>delayed\<close> that "it doesn't run a function
  immediately, but stores the information to run a function until the user specifies a
  .compute() function". So \<open>delayed(f)(x, y)\<close> is the description itself: the function
  and its two arguments, each a plain value or another delayed object.
\<close>

definition delayed :: "fname \<Rightarrow> obj \<Rightarrow> obj \<Rightarrow> obj" where
  "delayed f x y = Delayed f x y"

text \<open>
  \<^verbatim>\<open>
  a = delayed(add)(1,2)
  b = delayed(mlt)(1,2)
  c = delayed(mlt)(a,b)
  \<close>
\<close>

definition delayed_cell :: "world \<Rightarrow> world" where
  "delayed_cell w =
     (let a = delayed Add (Plain (VInt 1)) (Plain (VInt 2));
          w1 = assign ''a'' a w;
          b = delayed Mlt (Plain (VInt 1)) (Plain (VInt 2));
          w2 = assign ''b'' b w1;
          c = delayed Mlt a b
      in assign ''c'' c w2)"

text \<open>
  Modelled from the spec: executing a description, which the dask library does. The two
  arguments of a delayed call are independent computations; the library may start either
  first. A schedule says, for each delayed object, which argument is run first. The
  described function is called once both arguments have returned, and an exception of an
  argument or of the call ends the run. An object is run once for each place it appears
  in; in the notebook's description every object appears once.
\<close>

datatype order = LeftFirst | RightFirst

type_synonym schedule = "obj \<Rightarrow> order"

fun run :: "schedule \<Rightarrow> world \<Rightarrow> obj \<Rightarrow> world \<times> (pyerror + pyval)" where
  "run sch w (Plain v) = (w, Inr v)"
| "run sch w (Delayed f x y) =
     (case sch (Delayed f x y) of
        LeftFirst \<Rightarrow>
          (case run sch w x of
             (w1, Inl e) \<Rightarrow> (w1, Inl e)
           | (w1, Inr vx) \<Rightarrow>
               (case run sch w1 y of
                  (w2, Inl e) \<Rightarrow> (w2, Inl e)
                | (w2, Inr vy) \<Rightarrow> call f w2 vx vy))
      | RightFirst \<Rightarrow>
          (case run sch w y of
             (w1, Inl e) \<Rightarrow> (w1, Inl e)
           | (w1, Inr vy) \<Rightarrow>
               (case run sch w1 x of
                  (w2, Inl e) \<Rightarrow> (w2, Inl e)
                | (w2, Inr vx) \<Rightarrow> call f w2 vx vy)))"

text \<open>
  Modelled from the spec: the cell \<^verbatim>\<open>c.compute()\<close>. The name \<open>c\<close> is looked up; a
  delayed object is run, and its value is the cell's output. A plain value has no
  method \<open>compute\<close>.
\<close>

definition compute_cell :: "schedule \<Rightarrow> world \<Rightarrow> world \<times> (pyerror + pyval)" where
  "compute_cell sch w =
     (case globals w ''c'' of
        None \<Rightarrow> (w, Inl (NameError ''c''))
      | Some (Plain v) \<Rightarrow> (w, Inl (AttributeError (type_of v) ''compute''))
      | Some (Delayed f x y) \<Rightarrow> run sch w (Delayed f x y))"

text \<open>
  The value a run returns, if it returns one, and the value an object stands for when
  the state and the order of evaluation are left out.
\<close>

fun returned :: "pyerror + pyval \<Rightarrow> pyval option" where
  "returned (Inl e) = None"
| "returned (Inr v) = Some v"

fun value_of :: "obj \<Rightarrow> pyval option" where
  "value_of (Plain v) = Some v"
| "value_of (Delayed f x y) =
     (case value_of x of
        None \<Rightarrow> None
      | Some a \<Rightarrow>
          (case value_of y of
             None \<Rightarrow> None
           | Some b \<Rightarrow> returned (operator f a b)))"

definition world0 :: world where
  "world0 = \<lparr>globals = Map.empty, slept = 0, invoked = []\<rparr>"

section \<open>The cell that opens the catalog\<close>

text \<open>
  \<^verbatim>\<open>
  cat = open_catalog("https://raw.githubusercontent.com/pangeo-data/pangeo-datastore/master/intake-catalogs/ocean/CESM_POP.yaml")
  ds  = cat["CESM_POP_hires_control"].to_dask()
  \<close>
  The three library operations (opening, subscripting, \<open>to_dask\<close>) are parameters, each
  returning its result or the exception it raises. The cell can bind the names \<open>cat\<close>
  and \<open>ds\<close> only, so its state is what these two names are bound to.
\<close>

definition catalog_url :: string where
  "catalog_url = ''https://raw.githubusercontent.com/pangeo-data/pangeo-datastore/master/intake-catalogs/ocean/CESM_POP.yaml''"

definition open_cell ::
  "(string \<Rightarrow> pyerror + 'c) \<Rightarrow> ('c \<Rightarrow> string \<Rightarrow> pyerror + 'e) \<Rightarrow> ('e \<Rightarrow> pyerror + 'd)
     \<Rightarrow> 'c option \<times> 'd option \<Rightarrow> ('c option \<times> 'd option) \<times> pyerror option" where
  "open_cell open_catalog getitem to_dask bound =
     (case open_catalog catalog_url of
        Inl e \<Rightarrow> (bound, Some e)
      | Inr cat \<Rightarrow>
          (case getitem cat ''CESM_POP_hires_control'' of
             Inl e \<Rightarrow> ((Some cat, snd bound), Some e)
           | Inr entry \<Rightarrow>
               (case to_dask entry of
                  Inl e \<Rightarrow> ((Some cat, snd bound), Some e)
                | Inr ds \<Rightarrow> ((Some cat, Some ds), None))))"

definition failing_world :: world where
  \<comment> \<open>A state in which \<open>c\<close> is bound to the description of \<open>add(1, 'a')\<close>, a call that raises.\<close>
  "failing_world = assign ''c'' (delayed Add (Plain (VInt 1)) (Plain (VStr ''a''))) world0"

section \<open>The code cells as written\<close>

text \<open>
  The sixteen code cells of the notebook, in order, as syntax trees: what a claim about
  the form of the cells is checked against. Constructor names follow Python's \<open>ast\<close>
  module. Comments are left out; the \<^verbatim>\<open>%%time\<close> line of a cell is kept as a statement of
  its own. The last code cell of the notebook is empty, and \<open>ds\<close> is displayed twice.
\<close>

datatype expr =
    Name string
  | Num int
  | Str string
  | Attribute expr string
  | Subscript expr expr
  | BinOp expr binop expr
  | Call expr "expr list"
  | Keyword string expr

datatype stmt =
    ImportFrom string string
  | FunctionDef string "string list" "stmt list"
  | Assign string expr
  | Expr expr
  | Return expr
  | CellMagic string

type_synonym cell = "stmt list"

definition sst :: expr where
  "sst = Attribute (Name ''ds'') ''SST''"

definition open_cell_src :: cell where
  "open_cell_src =
     [ImportFrom ''intake'' ''open_catalog'',
      Assign ''cat'' (Call (Name ''open_catalog'') [Str catalog_url]),
      Assign ''ds''
        (Call (Attribute (Subscript (Name ''cat'') (Str ''CESM_POP_hires_control'')) ''to_dask'') [])]"

definition show_ds_src :: cell where
  "show_ds_src = [Expr (Name ''ds'')]"

definition show_sst_src :: cell where
  "show_sst_src = [Expr sst]"

definition show_time_src :: cell where
  "show_time_src = [Expr (Attribute (Name ''ds'') ''time'')]"

definition show_dims_src :: cell where
  "show_dims_src = [Expr (Attribute (Name ''ds'') ''dims'')]"

definition isel_first_src :: cell where
  "isel_first_src = [Expr (Call (Attribute sst ''isel'') [Keyword ''time'' (Num 0)])]"

definition isel_slice_src :: cell where
  "isel_slice_src =
     [Expr (Call (Attribute sst ''isel'')
              [Keyword ''time'' (Call (Name ''slice'') [Num 0, Num 10])])]"

definition mean_src :: cell where
  "mean_src = [Expr (Call (Attribute sst ''mean'') [Str ''time''])]"

definition plot_src :: cell where
  "plot_src =
     [Expr (Call (Attribute (Call (Attribute sst ''isel'') [Keyword ''time'' (Num 0)]) ''plot'') [])]"

definition toy_functions_src :: cell where
  "toy_functions_src =
     [ImportFrom ''time'' ''sleep'',
      FunctionDef ''add'' [''x'', ''y'']
        [Expr (Call (Name ''sleep'') [Num 2]), Return (BinOp (Name ''x'') OpAdd (Name ''y''))],
      FunctionDef ''mlt'' [''x'', ''y'']
        [Expr (Call (Name ''sleep'') [Num 1]), Return (BinOp (Name ''x'') OpMul (Name ''y''))]]"

definition eager_src :: cell where
  "eager_src =
     [CellMagic ''time'',
      Assign ''a'' (Call (Name ''add'') [Num 1, Num 2]),
      Assign ''b'' (Call (Name ''mlt'') [Num 1, Num 2]),
      Assign ''c'' (Call (Name ''mlt'') [Name ''a'', Name ''b''])]"

definition import_delayed_src :: cell where
  "import_delayed_src = [ImportFrom ''dask'' ''delayed'']"

definition delayed_src :: cell where
  "delayed_src =
     [CellMagic ''time'',
      Assign ''a'' (Call (Call (Name ''delayed'') [Name ''add'']) [Num 1, Num 2]),
      Assign ''b'' (Call (Call (Name ''delayed'') [Name ''mlt'']) [Num 1, Num 2]),
      Assign ''c'' (Call (Call (Name ''delayed'') [Name ''mlt'']) [Name ''a'', Name ''b''])]"

definition compute_src :: cell where
  "compute_src = [CellMagic ''time'', Expr (Call (Attribute (Name ''c'') ''compute'') [])]"

definition notebook :: "cell list" where
  "notebook =
     [open_cell_src, show_ds_src, show_sst_src, show_time_src, show_dims_src,
      isel_first_src, isel_slice_src, mean_src, plot_src, toy_functions_src, eager_src,
      import_delayed_src, delayed_src, compute_src, show_ds_src, []]"

text \<open>
  The name a call starts from: \<open>ds\<close> for \<open>ds.SST.isel(time=0).plot()\<close>,
  \<open>delayed\<close> for \<open>delayed(add)(1,2)\<close>.
\<close>

fun root :: "expr \<Rightarrow> string option" where
  "root (Name n) = Some n"
| "root (Attribute e a) = root e"
| "root (Subscript e k) = root e"
| "root (Call f args) = root f"
| "root e = None"

fun is_magic :: "stmt \<Rightarrow> bool" where
  "is_magic (CellMagic m) = True"
| "is_magic s = False"

fun is_import :: "stmt \<Rightarrow> bool" where
  "is_import (ImportFrom m n) = True"
| "is_import s = False"

fun defined :: "stmt \<Rightarrow> string list" where
  "defined (FunctionDef n ps body) = [n]"
| "defined s = []"

text \<open>
  The functions the notebook defines itself; a call of any other name is a call into a
  library. \<open>code\<close> is a cell without its magic line.
\<close>

definition own_functions :: "string list" where
  "own_functions = concat (map defined (concat notebook))"

definition code :: "cell \<Rightarrow> stmt list" where
  "code c = filter (\<lambda>s. \<not> is_magic s) c"

fun external_call :: "expr \<Rightarrow> bool" where
  "external_call (Call f args) =
     (case root f of None \<Rightarrow> False | Some n \<Rightarrow> n \<notin> set own_functions)"
| "external_call e = False"

text \<open>
  A cell that is a single call into an external library: one statement, which is a call
  (its arguments and the object it is called on may contain calls) that does not start
  from a function of the notebook.
\<close>

definition single_external_call :: "cell \<Rightarrow> bool" where
  "single_external_call c = (case code c of [Expr e] \<Rightarrow> external_call e | _ \<Rightarrow> False)"

fun is_lookup :: "expr \<Rightarrow> bool" where
  "is_lookup (Name n) = True"
| "is_lookup (Attribute e a) = is_lookup e"
| "is_lookup e = False"

fun is_call :: "expr \<Rightarrow> bool" where
  "is_call (Call f args) = True"
| "is_call e = False"

fun is_display :: "stmt \<Rightarrow> bool" where
  "is_display (Expr e) = is_lookup e"
| "is_display s = False"

fun is_call_assignment :: "stmt \<Rightarrow> bool" where
  "is_call_assignment (Assign x e) = is_call e"
| "is_call_assignment s = False"

fun is_definition :: "stmt \<Rightarrow> bool" where
  "is_definition (FunctionDef n ps body) = True"
| "is_definition s = False"

text \<open>
  What a cell consists of, imports aside: nothing, imports only, a single library call,
  lookups of a name or of attributes of a name, function definitions, or assignments of
  calls.
\<close>

datatype kind = Empty | Imports | ExternalCall | Display | Definitions | Assignments | Other

definition kind_of :: "cell \<Rightarrow> kind" where
  "kind_of c =
     (let b = filter (\<lambda>s. \<not> is_import s) (code c) in
      if code c = [] then Empty
      else if b = [] then Imports
      else if single_external_call c then ExternalCall
      else if list_all is_display b then Display
      else if list_all is_definition b then Definitions
      else if list_all is_call_assignment b then Assignments
      else Other)"

section \<open>Results about the toy functions\<close>

text \<open>
  Claim C2. On integers, \<open>add(x, y)\<close> returns the single value \<open>x + y\<close> and
  \<open>mlt(x, y)\<close> the single value \<open>x * y\<close>. Besides the returned value a call only
  spends its two seconds (one second for \<open>mlt\<close>) in \<open>sleep\<close>: on any arguments,
  the global namespace after the call is the one before it.
\<close>

theorem add_mlt_numeric:
  "add w (VInt x) (VInt y)
     = (w\<lparr>slept := slept w + 2, invoked := invoked w @ [Add]\<rparr>, Inr (VInt (x + y)))
   \<and> mlt w (VInt x) (VInt y)
     = (w\<lparr>slept := slept w + 1, invoked := invoked w @ [Mlt]\<rparr>, Inr (VInt (x * y)))
   \<and> globals (fst (add w a b)) = globals w
   \<and> globals (fst (mlt w a b)) = globals w"
  by (simp add: add_def mlt_def sleep_def enter_def)

text \<open>
  Claim C10. \<open>add\<close> and \<open>mlt\<close> restrict their arguments in no way: on all operands the
  result is the result of Python's \<open>+\<close> (of \<open>*\<close>), value or exception, so the functions
  succeed where the operator does and fail exactly where it fails. Strings and lists
  are concatenated, \<open>add('a','b')\<close> is \<open>'ab'\<close>; \<open>mlt\<close> repeats a string or a list, with
  the count on either side, and gives the empty sequence for a count of zero or less.
  The failures are the operator's: \<open>TypeError\<close> for \<open>add(1,'a')\<close> and \<open>mlt('a','b')\<close>,
  \<open>OverflowError\<close> for every count above \<open>2**63 - 1\<close> or below \<open>-2**63\<close> and for
  \<open>mlt('ab', 2**62)\<close>, \<open>MemoryError\<close> for \<open>mlt(2**62, [1, 2])\<close>.
\<close>

theorem add_mlt_any_operands:
  "snd (add w x y) = py_add x y
   \<and> snd (mlt w x y) = py_mul x y
   \<and> snd (add w (VStr s) (VStr t)) = Inr (VStr (s @ t))
   \<and> snd (add w (VList xs) (VList ys)) = Inr (VList (xs @ ys))
   \<and> snd (add w (VStr ''a'') (VStr ''b'')) = Inr (VStr ''ab'')
   \<and> snd (mlt w (VInt 3) (VStr ''ab'')) = Inr (VStr ''ababab'')
   \<and> snd (mlt w (VStr ''ab'') (VInt 3)) = Inr (VStr ''ababab'')
   \<and> snd (mlt w (VInt 2) (VList [VInt 1, VStr ''x'']))
       = Inr (VList [VInt 1, VStr ''x'', VInt 1, VStr ''x''])
   \<and> snd (mlt w (VList [VInt 1, VStr ''x'']) (VInt 2))
       = Inr (VList [VInt 1, VStr ''x'', VInt 1, VStr ''x''])
   \<and> snd (mlt w (VStr ''ab'') (VInt (- 1))) = Inr (VStr [])
   \<and> snd (mlt w (VInt 0) (VList [VNone])) = Inr (VList [])
   \<and> snd (mlt w (VStr []) (VInt (2 ^ 63 - 1))) = Inr (VStr [])
   \<and> snd (mlt w (VList [VInt 1]) (VInt (- (2 ^ 63)))) = Inr (VList [])
   \<and> snd (add w (VInt 1) (VStr ''a'')) = Inl (TypeError OpAdd TInt TStr)
   \<and> snd (mlt w (VStr ''a'') (VStr ''b'')) = Inl (TypeError OpMul TStr TStr)
   \<and> snd (mlt w (VStr s) (VInt (2 ^ 63 + int k))) = Inl OverflowError
   \<and> snd (mlt w (VInt (2 ^ 63 + int k)) (VList xs)) = Inl OverflowError
   \<and> snd (mlt w (VStr s) (VInt (- (2 ^ 63) - 1 - int k))) = Inl OverflowError
   \<and> snd (mlt w (VInt (- (2 ^ 63) - 1 - int k)) (VList xs)) = Inl OverflowError
   \<and> snd (mlt w (VStr ''ab'') (VInt (2 ^ 62))) = Inl OverflowError
   \<and> snd (mlt w (VInt (2 ^ 62)) (VList [VInt 1, VInt 2])) = Inl MemoryError"
proof -
  have link: "snd (add w x y) = py_add x y" "snd (mlt w x y) = py_mul x y" for w x y
    by (simp_all add: add_def mlt_def)
  have three: "replicate 3 v = [v, v, v]" "replicate 2 v = [v, v]" for v :: 'a
    by (simp_all add: eval_nat_numeral)
  have plus: "py_add (VStr ''a'') (VStr ''b'') = Inr (VStr ''ab'')"
    "py_add (VInt 1) (VStr ''a'') = Inl (TypeError OpAdd TInt TStr)"
    by simp_all
  have rep_str: "py_mul (VInt 3) (VStr ''ab'') = Inr (VStr ''ababab'')"
    "py_mul (VStr ''ab'') (VInt 3) = Inr (VStr ''ababab'')"
    by (simp_all add: str_repeat_def as_ssize_def three ssize_max_def)
  have rep_list:
    "py_mul (VInt 2) (VList [VInt 1, VStr ''x'']) = Inr (VList [VInt 1, VStr ''x'', VInt 1, VStr ''x''])"
    "py_mul (VList [VInt 1, VStr ''x'']) (VInt 2) = Inr (VList [VInt 1, VStr ''x'', VInt 1, VStr ''x''])"
    by (simp_all add: list_repeat_def as_ssize_def three ssize_max_def)
  have empty: "py_mul (VStr ''ab'') (VInt (- 1)) = Inr (VStr [])"
    "py_mul (VInt 0) (VList [VNone]) = Inr (VList [])"
    "py_mul (VStr []) (VInt (2 ^ 63 - 1)) = Inr (VStr [])"
    "py_mul (VList [VInt 1]) (VInt (- (2 ^ 63))) = Inr (VList [])"
    by (simp_all add: str_repeat_def list_repeat_def as_ssize_def ssize_max_def)
  have type: "py_mul (VStr ''a'') (VStr ''b'') = Inl (TypeError OpMul TStr TStr)"
    by simp
  have count: "py_mul (VStr s) (VInt (2 ^ 63 + int k)) = Inl OverflowError"
    "py_mul (VInt (2 ^ 63 + int k)) (VList xs) = Inl OverflowError"
    "py_mul (VStr s) (VInt (- (2 ^ 63) - 1 - int k)) = Inl OverflowError"
    "py_mul (VInt (- (2 ^ 63) - 1 - int k)) (VList xs) = Inl OverflowError"
    by (simp_all add: str_repeat_def list_repeat_def as_ssize_def ssize_max_def)
  have long: "py_mul (VStr ''ab'') (VInt (2 ^ 62)) = Inl OverflowError"
    "py_mul (VInt (2 ^ 62)) (VList [VInt 1, VInt 2]) = Inl MemoryError"
    by (simp_all add: str_repeat_def list_repeat_def as_ssize_def ssize_max_def)
  show ?thesis
    unfolding link
    using plus rep_str rep_list empty type count long by simp
qed

section \<open>Running a description\<close>

lemma call_world: "fst (call f w x y) = sleep (case f of Add \<Rightarrow> 2 | Mlt \<Rightarrow> 1) (enter f w)"
  by (cases f) (simp_all add: add_def mlt_def)

lemma call_result: "snd (call f w x y) = operator f x y"
  by (cases f) (simp_all add: add_def mlt_def)

lemma call_globals: "call f w x y = (w', r) \<Longrightarrow> globals w' = globals w"
  using call_world [of f w x y] by (simp add: sleep_def enter_def)

lemma call_returned: "call f w x y = (w', r) \<Longrightarrow> r = operator f x y"
  using call_result [of f w x y] by simp

text \<open>A run binds no name, whatever the schedule and whether or not it raises.\<close>

lemma run_globals: "run sch w g = (w', r) \<Longrightarrow> globals w' = globals w"
proof (induction g arbitrary: w w' r)
  case (Plain v)
  then show ?case by simp
next
  case (Delayed f x y)
  show ?case
  proof (cases "sch (Delayed f x y)")
    case LeftFirst
    obtain w1 r1 where x: "run sch w x = (w1, r1)" by (cases "run sch w x")
    obtain w2 r2 where y: "run sch w1 y = (w2, r2)" by (cases "run sch w1 y")
    have g1: "globals w1 = globals w" using Delayed.IH(1) [OF x] .
    have g2: "globals w2 = globals w" using Delayed.IH(2) [OF y] g1 by simp
    show ?thesis
      using Delayed.prems LeftFirst x y g1 g2
      by (auto split: sum.splits dest: call_globals)
  next
    case RightFirst
    obtain w1 r1 where y: "run sch w y = (w1, r1)" by (cases "run sch w y")
    obtain w2 r2 where x: "run sch w1 x = (w2, r2)" by (cases "run sch w1 x")
    have g1: "globals w1 = globals w" using Delayed.IH(2) [OF y] .
    have g2: "globals w2 = globals w" using Delayed.IH(1) [OF x] g1 by simp
    show ?thesis
      using Delayed.prems RightFirst x y g1 g2
      by (auto split: sum.splits dest: call_globals)
  qed
qed

text \<open>
  The value a run returns is the value the description stands for: it depends neither
  on the schedule nor on the state the run starts in.
\<close>

lemma run_returned: "run sch w g = (w', r) \<Longrightarrow> returned r = value_of g"
proof (induction g arbitrary: w w' r)
  case (Plain v)
  then show ?case by auto
next
  case (Delayed f x y)
  show ?case
  proof (cases "sch (Delayed f x y)")
    case LeftFirst
    obtain w1 r1 where x: "run sch w x = (w1, r1)" by (cases "run sch w x")
    obtain w2 r2 where y: "run sch w1 y = (w2, r2)" by (cases "run sch w1 y")
    have v1: "returned r1 = value_of x" using Delayed.IH(1) [OF x] .
    have v2: "returned r2 = value_of y" using Delayed.IH(2) [OF y] .
    show ?thesis
    proof (cases r1)
      case (Inl e)
      then show ?thesis using Delayed.prems LeftFirst x v1 by auto
    next
      case r1: (Inr a)
      show ?thesis
      proof (cases r2)
        case (Inl e)
        then show ?thesis using Delayed.prems LeftFirst x y r1 v1 v2
          by (auto split: option.splits)
      next
        case (Inr b)
        then show ?thesis using Delayed.prems LeftFirst x y r1 v1 v2
          by (auto split: option.splits dest: call_returned)
      qed
    qed
  next
    case RightFirst
    obtain w1 r1 where y: "run sch w y = (w1, r1)" by (cases "run sch w y")
    obtain w2 r2 where x: "run sch w1 x = (w2, r2)" by (cases "run sch w1 x")
    have v1: "returned r1 = value_of y" using Delayed.IH(2) [OF y] .
    have v2: "returned r2 = value_of x" using Delayed.IH(1) [OF x] .
    show ?thesis
    proof (cases r1)
      case (Inl e)
      then show ?thesis using Delayed.prems RightFirst y v1
        by (auto split: option.splits)
    next
      case r1: (Inr b)
      show ?thesis
      proof (cases r2)
        case (Inl e)
        then show ?thesis using Delayed.prems RightFirst x y r1 v1 v2
          by (auto split: option.splits)
      next
        case (Inr a)
        then show ?thesis using Delayed.prems RightFirst x y r1 v1 v2
          by (auto split: option.splits dest: call_returned)
      qed
    qed
  qed
qed

lemma delayed_cell_c:
  "globals (delayed_cell w) ''c'' =
     Some (Delayed Mlt (Delayed Add (Plain (VInt 1)) (Plain (VInt 2)))
                       (Delayed Mlt (Plain (VInt 1)) (Plain (VInt 2))))"
  by (simp add: delayed_cell_def delayed_def assign_def Let_def)

section \<open>The delayed cells against the eager cell\<close>

text \<open>
  Claim C1. From any state and under any schedule, \<open>c.compute()\<close> after the cell
  that builds \<open>a\<close>, \<open>b\<close> and \<open>c\<close> with \<open>delayed\<close> returns 6; the eager cell raises
  nothing and binds \<open>c\<close> to 6. In general, running the description of one call on plain
  arguments is the call itself, in its result and in its effect on the state.
\<close>

theorem deferred_equals_eager:
  "snd (compute_cell sch (delayed_cell w)) = Inr (VInt 6)
   \<and> snd (eager_cell w) = None
   \<and> globals (fst (eager_cell w)) ''c'' = Some (Plain (VInt 6))
   \<and> run sch w (delayed f (Plain x) (Plain y)) = call f w x y"
proof -
  have 1: "snd (compute_cell sch (delayed_cell w)) = Inr (VInt 6)"
    by (simp add: compute_cell_def delayed_cell_c add_def mlt_def split: order.splits)
  have 2: "snd (eager_cell w) = None"
    by (simp add: eager_cell_def add_def mlt_def)
  have 3: "globals (fst (eager_cell w)) ''c'' = Some (Plain (VInt 6))"
    by (simp add: eager_cell_def add_def mlt_def assign_def Let_def)
  have 4: "run sch w (delayed f (Plain x) (Plain y)) = call f w x y"
    by (simp add: delayed_def split: order.splits)
  from 1 2 3 4 show ?thesis by blast
qed

text \<open>
  Claim C3. The cell that builds the three delayed objects enters neither \<open>add\<close> nor
  \<open>mlt\<close> and spends no time in \<open>sleep\<close>. \<open>c.compute()\<close> after it enters \<open>add\<close> once and
  \<open>mlt\<close> twice, \<open>a\<close> and \<open>b\<close> in the order the schedule chooses and the last \<open>mlt\<close> after
  both, and sleeps the four seconds of the three bodies.
\<close>

theorem delayed_runs_only_on_compute:
  "invoked (delayed_cell w) = invoked w
   \<and> slept (delayed_cell w) = slept w
   \<and> invoked (fst (compute_cell sch (delayed_cell w)))
       = invoked w @
         (case sch (Delayed Mlt (Delayed Add (Plain (VInt 1)) (Plain (VInt 2)))
                                (Delayed Mlt (Plain (VInt 1)) (Plain (VInt 2)))) of
            LeftFirst \<Rightarrow> [Add, Mlt, Mlt]
          | RightFirst \<Rightarrow> [Mlt, Add, Mlt])
   \<and> slept (fst (compute_cell sch (delayed_cell w))) = slept w + 4"
proof -
  have 1: "invoked (delayed_cell w) = invoked w" "slept (delayed_cell w) = slept w"
    by (simp_all add: delayed_cell_def assign_def Let_def)
  have 2: "invoked (fst (compute_cell sch (delayed_cell w)))
       = invoked w @
         (case sch (Delayed Mlt (Delayed Add (Plain (VInt 1)) (Plain (VInt 2)))
                                (Delayed Mlt (Plain (VInt 1)) (Plain (VInt 2)))) of
            LeftFirst \<Rightarrow> [Add, Mlt, Mlt]
          | RightFirst \<Rightarrow> [Mlt, Add, Mlt])"
    using 1 by (simp add: compute_cell_def delayed_cell_c add_def mlt_def sleep_def enter_def
        split: order.splits)
  have 3: "slept (fst (compute_cell sch (delayed_cell w))) = slept w + 4"
    using 1 by (simp add: compute_cell_def delayed_cell_c add_def mlt_def sleep_def enter_def
        split: order.splits)
  from 1 2 3 show ?thesis by blast
qed

text \<open>
  Claim C9. The result of \<open>add\<close> and of \<open>mlt\<close> is a function of the two arguments: two
  calls on equal arguments, from any two states, have equal results. The value returned
  by running a description is the same under any two schedules and from any two states;
  running the description of one call gives the result of calling the function
  directly; and the notebook's description with integer arguments returns
  \<open>(a1 + a2) * (b1 * b2)\<close> under every schedule.
\<close>

theorem toy_computation_deterministic:
  "snd (add w x y) = snd (add w' x y)
   \<and> snd (mlt w x y) = snd (mlt w' x y)
   \<and> returned (snd (run sch w g)) = returned (snd (run sch' w' g))
   \<and> snd (run sch w (delayed f (Plain x) (Plain y))) = snd (call f w' x y)
   \<and> snd (run sch w (delayed Mlt (delayed Add (Plain (VInt a1)) (Plain (VInt a2)))
                                  (delayed Mlt (Plain (VInt b1)) (Plain (VInt b2)))))
       = Inr (VInt ((a1 + a2) * (b1 * b2)))"
proof -
  have 1: "snd (add w x y) = snd (add w' x y)" "snd (mlt w x y) = snd (mlt w' x y)"
    by (simp_all add: add_def mlt_def)
  have "returned (snd (run sch w g)) = value_of g" for sch w
    using run_returned [of sch w g "fst (run sch w g)" "snd (run sch w g)"] by simp
  then have 2: "returned (snd (run sch w g)) = returned (snd (run sch' w' g))"
    by simp
  have 3: "snd (run sch w (delayed f (Plain x) (Plain y))) = snd (call f w' x y)"
    by (simp add: delayed_def call_result split: order.splits)
  have 4: "snd (run sch w (delayed Mlt (delayed Add (Plain (VInt a1)) (Plain (VInt a2)))
                                  (delayed Mlt (Plain (VInt b1)) (Plain (VInt b2)))))
       = Inr (VInt ((a1 + a2) * (b1 * b2)))"
    by (simp add: delayed_def add_def mlt_def split: order.splits)
  from 1 2 3 4 show ?thesis by blast
qed

section \<open>Failures\<close>

text \<open>
  Claim C5. A failure is surfaced as raised and the failing call binds nothing. If
  the operator in \<open>add\<close> (in \<open>mlt\<close>) raises, the call raises that exception and leaves
  the global namespace as it was. If \<open>c\<close> describes a call whose operator raises,
  \<open>c.compute()\<close> raises that exception, the namespace unchanged. In the cell that
  opens the catalog, an exception of \<open>open_catalog\<close> is the cell's exception and
  neither \<open>cat\<close> nor \<open>ds\<close> is rebound; an exception of the subscript or of \<open>to_dask\<close>
  is the cell's exception and \<open>ds\<close> is not rebound.
\<close>

theorem failure_surfaces_unmodified:
  "(py_add xa ya = Inl ea \<longrightarrow>
      snd (add w xa ya) = Inl ea \<and> globals (fst (add w xa ya)) = globals w)
   \<and> (py_mul xm ym = Inl em \<longrightarrow>
      snd (mlt w xm ym) = Inl em \<and> globals (fst (mlt w xm ym)) = globals w)
   \<and> (globals w ''c'' = Some (delayed f (Plain xc) (Plain yc)) \<and> operator f xc yc = Inl ec \<longrightarrow>
      snd (compute_cell sch w) = Inl ec \<and> globals (fst (compute_cell sch w)) = globals w)
   \<and> (open_catalog catalog_url = Inl e_open \<longrightarrow>
      open_cell open_catalog getitem to_dask bound = (bound, Some e_open))
   \<and> (open_catalog catalog_url = Inr cat \<and> getitem cat ''CESM_POP_hires_control'' = Inl e_item \<longrightarrow>
      open_cell open_catalog getitem to_dask bound = ((Some cat, snd bound), Some e_item))
   \<and> (open_catalog catalog_url = Inr cat \<and> getitem cat ''CESM_POP_hires_control'' = Inr entry
        \<and> to_dask entry = Inl e_dask \<longrightarrow>
      open_cell open_catalog getitem to_dask bound = ((Some cat, snd bound), Some e_dask))"
proof -
  have 1: "py_add xa ya = Inl ea \<longrightarrow>
      snd (add w xa ya) = Inl ea \<and> globals (fst (add w xa ya)) = globals w"
    by (simp add: add_def sleep_def enter_def)
  have 2: "py_mul xm ym = Inl em \<longrightarrow>
      snd (mlt w xm ym) = Inl em \<and> globals (fst (mlt w xm ym)) = globals w"
    by (simp add: mlt_def sleep_def enter_def)
  have 3: "globals w ''c'' = Some (delayed f (Plain xc) (Plain yc)) \<and> operator f xc yc = Inl ec \<longrightarrow>
      snd (compute_cell sch w) = Inl ec \<and> globals (fst (compute_cell sch w)) = globals w"
    by (auto simp: compute_cell_def delayed_def call_result call_world sleep_def enter_def
        split: order.splits)
  have 4: "open_catalog catalog_url = Inl e_open \<longrightarrow>
      open_cell open_catalog getitem to_dask bound = (bound, Some e_open)"
    by (simp add: open_cell_def)
  have 5: "open_catalog catalog_url = Inr cat \<and> getitem cat ''CESM_POP_hires_control'' = Inl e_item \<longrightarrow>
      open_cell open_catalog getitem to_dask bound = ((Some cat, snd bound), Some e_item)"
    by (simp add: open_cell_def)
  have 6: "open_catalog catalog_url = Inr cat \<and> getitem cat ''CESM_POP_hires_control'' = Inr entry
        \<and> to_dask entry = Inl e_dask \<longrightarrow>
      open_cell open_catalog getitem to_dask bound = ((Some cat, snd bound), Some e_dask)"
    by (simp add: open_cell_def)
  from 1 2 3 4 5 6 show ?thesis by blast
qed

text \<open>
  The theorem at \<open>add(1, 'a')\<close>, \<open>mlt('a', 'b')\<close>, a state whose \<open>c\<close> describes
  \<open>add(1, 'a')\<close>, and three runs of the opening cell, failing in \<open>open_catalog\<close>, in the
  subscript and in \<open>to_dask\<close>.
\<close>

theorem failure_surfaces_unmodified_witness:
  "py_add (VInt 1) (VStr ''a'') = Inl (TypeError OpAdd TInt TStr)
   \<and> snd (add failing_world (VInt 1) (VStr ''a'')) = Inl (TypeError OpAdd TInt TStr)
   \<and> globals (fst (add failing_world (VInt 1) (VStr ''a''))) = globals failing_world
   \<and> py_mul (VStr ''a'') (VStr ''b'') = Inl (TypeError OpMul TStr TStr)
   \<and> snd (mlt failing_world (VStr ''a'') (VStr ''b'')) = Inl (TypeError OpMul TStr TStr)
   \<and> globals (fst (mlt failing_world (VStr ''a'') (VStr ''b''))) = globals failing_world
   \<and> globals failing_world ''c'' = Some (delayed Add (Plain (VInt 1)) (Plain (VStr ''a'')))
   \<and> operator Add (VInt 1) (VStr ''a'') = Inl (TypeError OpAdd TInt TStr)
   \<and> snd (compute_cell (\<lambda>g. LeftFirst) failing_world) = Inl (TypeError OpAdd TInt TStr)
   \<and> globals (fst (compute_cell (\<lambda>g. LeftFirst) failing_world)) = globals failing_world
   \<and> open_cell (\<lambda>u. Inl (LibraryError ''unreachable'')) (\<lambda>c k. Inr ''entry'') (\<lambda>e. Inr ''dataset'')
        (None :: string option, None :: string option)
       = ((None, None), Some (LibraryError ''unreachable''))
   \<and> open_cell (\<lambda>u. Inr ''catalog'') (\<lambda>c k. Inl (LibraryError ''no entry'')) (\<lambda>e :: string. Inr ''dataset'')
        (None, Some ''old'')
       = ((Some ''catalog'', Some ''old''), Some (LibraryError ''no entry''))
   \<and> open_cell (\<lambda>u. Inr ''catalog'') (\<lambda>c k. Inr ''entry'') (\<lambda>e. Inl (LibraryError ''unreachable''))
        (None, Some ''old'')
       = ((Some ''catalog'', Some ''old''), Some (LibraryError ''unreachable''))"
proof -
  note at_open =
    failure_surfaces_unmodified [where xa = "VInt 1" and ya = "VStr ''a''"
      and ea = "TypeError OpAdd TInt TStr" and w = failing_world
      and xm = "VStr ''a''" and ym = "VStr ''b''" and em = "TypeError OpMul TStr TStr"
      and f = Add and xc = "VInt 1" and yc = "VStr ''a''" and ec = "TypeError OpAdd TInt TStr"
      and sch = "\<lambda>g. LeftFirst"
      and open_catalog = "\<lambda>u. Inl (LibraryError ''unreachable'')"
      and getitem = "\<lambda>c k. Inr ''entry''" and to_dask = "\<lambda>e. Inr ''dataset''"
      and bound = "(None :: string option, None :: string option)"
      and e_open = "LibraryError ''unreachable''"
      and cat = "''catalog''" and entry = "''entry''"
      and e_item = "LibraryError ''no entry''" and e_dask = "LibraryError ''unreachable''"]
  note at_item =
    failure_surfaces_unmodified [where xa = "VInt 1" and ya = "VStr ''a''"
      and ea = "TypeError OpAdd TInt TStr" and w = failing_world
      and xm = "VStr ''a''" and ym = "VStr ''b''" and em = "TypeError OpMul TStr TStr"
      and f = Add and xc = "VInt 1" and yc = "VStr ''a''" and ec = "TypeError OpAdd TInt TStr"
      and sch = "\<lambda>g. LeftFirst"
      and open_catalog = "\<lambda>u. Inr ''catalog''"
      and getitem = "\<lambda>c k. Inl (LibraryError ''no entry'')"
      and to_dask = "\<lambda>e :: string. Inr ''dataset''"
      and bound = "(None :: string option, Some ''old'')"
      and e_open = "LibraryError ''unreachable''"
      and cat = "''catalog''" and entry = "''entry''"
      and e_item = "LibraryError ''no entry''" and e_dask = "LibraryError ''unreachable''"]
  note at_dask =
    failure_surfaces_unmodified [where xa = "VInt 1" and ya = "VStr ''a''"
      and ea = "TypeError OpAdd TInt TStr" and w = failing_world
      and xm = "VStr ''a''" and ym = "VStr ''b''" and em = "TypeError OpMul TStr TStr"
      and f = Add and xc = "VInt 1" and yc = "VStr ''a''" and ec = "TypeError OpAdd TInt TStr"
      and sch = "\<lambda>g. LeftFirst"
      and open_catalog = "\<lambda>u. Inr ''catalog''"
      and getitem = "\<lambda>c k. Inr ''entry''"
      and to_dask = "\<lambda>e. Inl (LibraryError ''unreachable'')"
      and bound = "(None :: string option, Some ''old'')"
      and e_open = "LibraryError ''unreachable''"
      and cat = "''catalog''" and entry = "''entry''"
      and e_item = "LibraryError ''no entry''" and e_dask = "LibraryError ''unreachable''"]
  have c: "globals failing_world ''c'' = Some (delayed Add (Plain (VInt 1)) (Plain (VStr ''a'')))"
    by (simp add: failing_world_def assign_def)
  show ?thesis
    using at_open at_item at_dask c by simp
qed

section \<open>The form of the code cells\<close>

lemma own_functions_are: "own_functions = [''add'', ''mlt'']"
  by (simp add: own_functions_def notebook_def open_cell_src_def show_ds_src_def
      show_sst_src_def show_time_src_def show_dims_src_def isel_first_src_def
      isel_slice_src_def mean_src_def plot_src_def toy_functions_src_def eager_src_def
      import_delayed_src_def delayed_src_def compute_src_def)

text \<open>
  Claim C6, as stated, fails: the cell that defines \<open>add\<close> and \<open>mlt\<close> is a cell of the
  notebook and is not a single call into an external library, and neither is the
  eager cell, whose three statements call the notebook's own functions.
\<close>

theorem not_every_cell_single_call:
  "toy_functions_src \<in> set notebook
   \<and> \<not> single_external_call toy_functions_src
   \<and> eager_src \<in> set notebook
   \<and> \<not> single_external_call eager_src"
  by (simp add: notebook_def single_external_call_def code_def toy_functions_src_def
      eager_src_def own_functions_are)

text \<open>
  Claim C6, amended. Of the sixteen code cells, five are a single call into an external
  library: the two \<open>isel\<close> selections, the mean along \<open>time\<close>, the plot of the first time
  step and \<open>c.compute()\<close>. Five display \<open>ds\<close> or one of its attributes, three are
  sequences of assignments of calls (the opening of the catalog after its import, the
  eager cell, the delayed cell), one defines the two toy functions after an import, one
  is an import alone and one is empty. No cell has more than three statements at its
  top level.
\<close>

theorem cells_by_kind:
  "map kind_of notebook =
     [Assignments, Display, Display, Display, Display,
      ExternalCall, ExternalCall, ExternalCall, ExternalCall,
      Definitions, Assignments, Imports, Assignments, ExternalCall, Display, Empty]
   \<and> map (\<lambda>c. length (code c)) notebook = [3, 1, 1, 1, 1, 1, 1, 1, 1, 3, 3, 1, 3, 1, 1, 0]"
  by (simp add: own_functions_are kind_of_def single_external_call_def code_def sst_def
      notebook_def open_cell_src_def show_ds_src_def show_sst_src_def show_time_src_def
      show_dims_src_def isel_first_src_def isel_slice_src_def mean_src_def plot_src_def
      toy_functions_src_def eager_src_def import_delayed_src_def delayed_src_def
      compute_src_def)

end
